theory Spec2Isabelle
  imports
    Main
    "HOL-Library.Word"
    "HOL-Library.Char_ord"
    "HOL-Library.Mapping"
    "HOL-Library.AList_Mapping"
    "HOL-Library.Sublist"
begin

section \<open>The Keycloak realm provider: data model\<close>

text \<open>
  The development embeds \<^verbatim>\<open>provider/pkg/provider/realm.go\<close>. A Go pointer field
  (\<^verbatim>\<open>*bool\<close>, \<^verbatim>\<open>*string\<close>, \<^verbatim>\<open>*int\<close>) is an \<open>option\<close>: \<open>None\<close> is the nil
  pointer. Go's \<^verbatim>\<open>int\<close> is the 64-bit two's-complement integer of the 64-bit targets
  the provider is built for; arithmetic on it wraps around. A \<^verbatim>\<open>map[string]string\<close>
  is a \<open>(string, string) mapping\<close>; the nil map and the empty map agree on every
  read and on \<^verbatim>\<open>len\<close>, and both are \<open>Mapping.empty\<close>. Record fields carry a
  prefix naming their struct, since several structs share field names.
\<close>

type_synonym go_int = "64 word"

record SmtpServerConfig =
  smtp_Host :: "string option"
  smtp_Port :: "go_int option"
  smtp_From :: "string option"
  smtp_FromName :: "string option"
  smtp_StartTls :: "bool option"
  smtp_Auth :: "bool option"
  smtp_Username :: "string option"
  smtp_Password :: "string option"

record RealmArgs =
  args_Name :: string
  args_Enabled :: "bool option"
  args_DisplayName :: "string option"
  args_DisplayNameHtml :: "string option"
  args_LoginTheme :: "string option"
  args_AccountTheme :: "string option"
  args_AdminTheme :: "string option"
  args_EmailTheme :: "string option"
  args_SmtpServer :: "SmtpServerConfig option"

record RealmState =
  state_ID :: string
  state_Name :: string
  state_Enabled :: "bool option"
  state_DisplayName :: "string option"
  state_DisplayNameHtml :: "string option"
  state_LoginTheme :: "string option"
  state_AccountTheme :: "string option"
  state_AdminTheme :: "string option"
  state_EmailTheme :: "string option"
  state_SmtpServer :: "SmtpServerConfig option"

text \<open>
  \<^verbatim>\<open>gocloak.RealmRepresentation\<close> is declared by the admin client library, outside
  this repository. The fields \<^verbatim>\<open>realm.go\<close> reads or writes are modelled one by one;
  all the remaining attributes of the struct (each a nilable field) are the bag
  \<open>kc_Other\<close>, from attribute name to a value of an arbitrary type \<open>'v\<close>. The
  composite literal \<^verbatim>\<open>gocloak.RealmRepresentation{...}\<close> leaves every field it does not
  name nil: \<open>None\<close>, and the empty bag.
\<close>

record 'v RealmRepresentation =
  kc_Realm :: "string option"
  kc_Enabled :: "bool option"
  kc_DisplayName :: "string option"
  kc_DisplayNameHTML :: "string option"
  kc_LoginTheme :: "string option"
  kc_AccountTheme :: "string option"
  kc_AdminTheme :: "string option"
  kc_EmailTheme :: "string option"
  kc_SMTPServer :: "(string, string) mapping option"
  kc_Other :: "(string, 'v) mapping"


section \<open>Field codec\<close>

subsection \<open>Decimal rendering of the port\<close>

text \<open>
  \<^verbatim>\<open>fmt.Sprintf("%d", n)\<close> of the Go standard library renders an \<^verbatim>\<open>int\<close> in
  decimal, most significant digit first, with a leading \<^verbatim>\<open>-\<close> when it is negative.
  \<open>digit_char\<close> is only applied to numbers below ten.
\<close>

definition digit_char :: "nat \<Rightarrow> char" where
  "digit_char d = ''0123456789'' ! d"

function decimal :: "nat \<Rightarrow> string" where
  "decimal n = (if n < 10 then [digit_char n] else decimal (n div 10) @ [digit_char (n mod 10)])"
  by pat_completeness auto
termination
  by (relation "measure (\<lambda>n. n)") auto

declare decimal.simps [simp del]

definition Sprintf_d :: "go_int \<Rightarrow> string" where
  "Sprintf_d n = (if sint n < 0 then CHR ''-'' # decimal (nat (- sint n)) else decimal (nat (sint n)))"

subsection \<open>parseInt\<close>

text \<open>
  \<^verbatim>\<open>for _, char := range s\<close> walks the runes of the string. A byte outside ASCII only
  occurs in a rune above \<^verbatim>\<open>'9'\<close>, which the loop rejects like any other non-digit, so
  walking the bytes gives the same result. \<open>parseInt_loop result s\<close> is the loop
  entered with the accumulator \<open>result\<close> and the rest \<open>s\<close> of the string;
  \<^verbatim>\<open>result*10 + int(char-'0')\<close> is computed on \<^verbatim>\<open>int\<close> and wraps.
\<close>

fun parseInt_loop :: "go_int \<Rightarrow> string \<Rightarrow> go_int option" where
  "parseInt_loop result [] = Some result"
| "parseInt_loop result (char # s) =
     (if char < CHR ''0'' \<or> char > CHR ''9'' then None
      else parseInt_loop (result * 10 + word_of_nat (of_char char - of_char (CHR ''0''))) s)"

definition parseInt :: "string \<Rightarrow> go_int option" where
  "parseInt s = (if s = [] then None else parseInt_loop 0 s)"

subsection \<open>SMTP configuration to and from the string map\<close>

definition convertSmtpConfig :: "SmtpServerConfig option \<Rightarrow> (string, string) mapping" where
  "convertSmtpConfig smtp =
     (case smtp of
        None \<Rightarrow> Mapping.empty
      | Some c \<Rightarrow>
          (let result = Mapping.empty;
               result = (case smtp_Host c of None \<Rightarrow> result
                         | Some h \<Rightarrow> Mapping.update ''host'' h result);
               result = (case smtp_Port c of None \<Rightarrow> result
                         | Some p \<Rightarrow> Mapping.update ''port'' (Sprintf_d p) result);
               result = (case smtp_From c of None \<Rightarrow> result
                         | Some f \<Rightarrow> Mapping.update ''from'' f result);
               result = (case smtp_FromName c of None \<Rightarrow> result
                         | Some f \<Rightarrow> Mapping.update ''fromDisplayName'' f result);
               result = (case smtp_StartTls c of None \<Rightarrow> result
                         | Some b \<Rightarrow>
                             (if b then Mapping.update ''starttls'' ''true'' result
                              else Mapping.update ''starttls'' ''false'' result))
           in if (case smtp_Auth c of None \<Rightarrow> False | Some auth \<Rightarrow> auth) then
                (let result = Mapping.update ''auth'' ''true'' result;
                     result = (case smtp_Username c of None \<Rightarrow> result
                               | Some u \<Rightarrow> Mapping.update ''user'' u result);
                     result = (case smtp_Password c of None \<Rightarrow> result
                               | Some p \<Rightarrow> Mapping.update ''password'' p result)
                 in result)
              else Mapping.update ''auth'' ''false'' result))"

definition convertFromKeycloakSmtp :: "(string, string) mapping \<Rightarrow> SmtpServerConfig option" where
  "convertFromKeycloakSmtp keycloakSmtp =
     (if Mapping.is_empty keycloakSmtp then None
      else
        (let smtp = \<lparr>smtp_Host = None, smtp_Port = None, smtp_From = None,
                     smtp_FromName = None, smtp_StartTls = None, smtp_Auth = None,
                     smtp_Username = None, smtp_Password = None\<rparr>;
             smtp = (case Mapping.lookup keycloakSmtp ''host'' of None \<Rightarrow> smtp
                     | Some host \<Rightarrow> smtp\<lparr>smtp_Host := Some host\<rparr>);
             smtp = (case Mapping.lookup keycloakSmtp ''port'' of None \<Rightarrow> smtp
                     | Some port \<Rightarrow>
                         (case parseInt port of None \<Rightarrow> smtp
                          | Some portInt \<Rightarrow> smtp\<lparr>smtp_Port := Some portInt\<rparr>));
             smtp = (case Mapping.lookup keycloakSmtp ''from'' of None \<Rightarrow> smtp
                     | Some from \<Rightarrow> smtp\<lparr>smtp_From := Some from\<rparr>);
             smtp = (case Mapping.lookup keycloakSmtp ''fromDisplayName'' of None \<Rightarrow> smtp
                     | Some fromName \<Rightarrow> smtp\<lparr>smtp_FromName := Some fromName\<rparr>);
             smtp = (case Mapping.lookup keycloakSmtp ''starttls'' of None \<Rightarrow> smtp
                     | Some starttls \<Rightarrow> smtp\<lparr>smtp_StartTls := Some (starttls = ''true'')\<rparr>);
             smtp = (case Mapping.lookup keycloakSmtp ''auth'' of None \<Rightarrow> smtp
                     | Some auth \<Rightarrow>
                         (let authBool = (auth = ''true'');
                              smtp = smtp\<lparr>smtp_Auth := Some authBool\<rparr>
                          in if authBool then
                               (let smtp = (case Mapping.lookup keycloakSmtp ''user'' of
                                              None \<Rightarrow> smtp
                                            | Some user \<Rightarrow> smtp\<lparr>smtp_Username := Some user\<rparr>);
                                    smtp = (case Mapping.lookup keycloakSmtp ''password'' of
                                              None \<Rightarrow> smtp
                                            | Some password \<Rightarrow>
                                                smtp\<lparr>smtp_Password := Some password\<rparr>)
                                in smtp)
                             else smtp))
         in Some smtp))"


section \<open>The admin API client and the provider context\<close>

text \<open>
  A Go \<^verbatim>\<open>error\<close> is modelled by its message (\<^verbatim>\<open>err.Error()\<close>), which is all the
  code inspects; \<^verbatim>\<open>fmt.Errorf("msg: %w", err)\<close> yields the message \<^verbatim>\<open>msg: \<close> followed
  by the message of \<^verbatim>\<open>err\<close>. A function of the provider either returns, fails with an
  \<open>Error\<close>, or panics.
\<close>

datatype failure = Error string | Panic string

definition nil_dereference :: failure where
  "nil_dereference = Panic ''runtime error: invalid memory address or nil pointer dereference''"

record JWT =
  AccessToken :: string

record ProviderConfig =
  cfg_URL :: string
  cfg_Username :: string
  cfg_Password :: string
  cfg_Realm :: "string option"
  cfg_BasePath :: "string option"
  cfg_Insecure :: "bool option"

text \<open>
  The client \<^verbatim>\<open>*gocloak.GoCloak\<close> belongs to a library outside this repository and
  talks to a remote server, so its behaviour is a parameter: a record of the five
  operations \<^verbatim>\<open>realm.go\<close> calls, each a function of the arguments and of the remote
  system's state \<open>'w\<close>, returning the reply and the remote system's next state. An
  operation that succeeds returns a non-nil result.
\<close>

record ('w, 'v) GoCloak =
  gc_LoginAdmin :: "string \<Rightarrow> string \<Rightarrow> string \<Rightarrow> 'w \<Rightarrow> (string + JWT) \<times> 'w"
  gc_GetRealm :: "string \<Rightarrow> string \<Rightarrow> 'w \<Rightarrow> (string + 'v RealmRepresentation) \<times> 'w"
  gc_CreateRealm :: "string \<Rightarrow> 'v RealmRepresentation \<Rightarrow> 'w \<Rightarrow> (string + string) \<times> 'w"
  gc_UpdateRealm :: "string \<Rightarrow> 'v RealmRepresentation \<Rightarrow> 'w \<Rightarrow> string option \<times> 'w"
  gc_DeleteRealm :: "string \<Rightarrow> string \<Rightarrow> 'w \<Rightarrow> string option \<times> 'w"

text \<open>
  Every remote call is recorded, with its arguments, in the order it is made: a
  session is the state of the remote system together with the calls made so far.
\<close>

datatype 'v call =
    CallLoginAdmin string string string
  | CallGetRealm string string
  | CallCreateRealm string "'v RealmRepresentation"
  | CallUpdateRealm string "'v RealmRepresentation"
  | CallDeleteRealm string string

fun is_write :: "'v call \<Rightarrow> bool" where
  "is_write (CallLoginAdmin username password realm) = False"
| "is_write (CallGetRealm token realmName) = False"
| "is_write (CallCreateRealm token realm) = True"
| "is_write (CallUpdateRealm token realm) = True"
| "is_write (CallDeleteRealm token realmName) = True"

record ('w, 'v) session =
  remote :: 'w
  calls :: "'v call list"

definition LoginAdmin ::
  "('w, 'v) GoCloak \<Rightarrow> string \<Rightarrow> string \<Rightarrow> string \<Rightarrow> ('w, 'v) session
     \<Rightarrow> (string + JWT) \<times> ('w, 'v) session" where
  "LoginAdmin client username password realm s =
     (case gc_LoginAdmin client username password realm (remote s) of
        (reply, w) \<Rightarrow>
          (reply, \<lparr>remote = w, calls = calls s @ [CallLoginAdmin username password realm]\<rparr>))"

definition GetRealm ::
  "('w, 'v) GoCloak \<Rightarrow> string \<Rightarrow> string \<Rightarrow> ('w, 'v) session
     \<Rightarrow> (string + 'v RealmRepresentation) \<times> ('w, 'v) session" where
  "GetRealm client token realmName s =
     (case gc_GetRealm client token realmName (remote s) of
        (reply, w) \<Rightarrow> (reply, \<lparr>remote = w, calls = calls s @ [CallGetRealm token realmName]\<rparr>))"

definition CreateRealm ::
  "('w, 'v) GoCloak \<Rightarrow> string \<Rightarrow> 'v RealmRepresentation \<Rightarrow> ('w, 'v) session
     \<Rightarrow> (string + string) \<times> ('w, 'v) session" where
  "CreateRealm client token realm s =
     (case gc_CreateRealm client token realm (remote s) of
        (reply, w) \<Rightarrow> (reply, \<lparr>remote = w, calls = calls s @ [CallCreateRealm token realm]\<rparr>))"

definition UpdateRealm ::
  "('w, 'v) GoCloak \<Rightarrow> string \<Rightarrow> 'v RealmRepresentation \<Rightarrow> ('w, 'v) session
     \<Rightarrow> string option \<times> ('w, 'v) session" where
  "UpdateRealm client token realm s =
     (case gc_UpdateRealm client token realm (remote s) of
        (reply, w) \<Rightarrow> (reply, \<lparr>remote = w, calls = calls s @ [CallUpdateRealm token realm]\<rparr>))"

definition DeleteRealm ::
  "('w, 'v) GoCloak \<Rightarrow> string \<Rightarrow> string \<Rightarrow> ('w, 'v) session
     \<Rightarrow> string option \<times> ('w, 'v) session" where
  "DeleteRealm client token realmName s =
     (case gc_DeleteRealm client token realmName (remote s) of
        (reply, w) \<Rightarrow> (reply, \<lparr>remote = w, calls = calls s @ [CallDeleteRealm token realmName]\<rparr>))"

text \<open>
  The request context carries the provider configuration and the client under two
  keys; either may be missing, and the lookup helpers of \<^verbatim>\<open>config.go\<close> panic then.
\<close>

record ('w, 'v) request_ctx =
  ctx_config :: "ProviderConfig option"
  ctx_client :: "('w, 'v) GoCloak option"

definition getKeycloakClient :: "('w, 'v) request_ctx \<Rightarrow> failure + ('w, 'v) GoCloak" where
  "getKeycloakClient ctx =
     (case ctx_client ctx of
        Some client \<Rightarrow> Inr client
      | None \<Rightarrow> Inl (Panic ''Keycloak client not found in context''))"

definition getProviderConfig :: "('w, 'v) request_ctx \<Rightarrow> failure + ProviderConfig" where
  "getProviderConfig ctx =
     (case ctx_config ctx of
        Some config \<Rightarrow> Inr config
      | None \<Rightarrow> Inl (Panic ''Provider config not found in context''))"


section \<open>Merge engine\<close>

definition realmExists ::
  "('w, 'v) request_ctx \<Rightarrow> ('w, 'v) GoCloak \<Rightarrow> string \<Rightarrow> ('w, 'v) session
     \<Rightarrow> (failure + bool) \<times> ('w, 'v) session" where
  "realmExists ctx client realmName s =
     (case getProviderConfig ctx of
        Inl p \<Rightarrow> (Inl p, s)
      | Inr config \<Rightarrow>
          (case cfg_Realm config of
             None \<Rightarrow> (Inl nil_dereference, s)
           | Some adminRealm \<Rightarrow>
               (case LoginAdmin client (cfg_Username config) (cfg_Password config) adminRealm s of
                  (Inl err, s1) \<Rightarrow> (Inl (Error (''failed to authenticate: '' @ err)), s1)
                | (Inr token, s1) \<Rightarrow>
                    (case GetRealm client (AccessToken token) realmName s1 of
                       (Inl err, s2) \<Rightarrow>
                         (if err = ''404'' \<or> err = ''realm not found'' then (Inr False, s2)
                          else (Inl (Error err), s2))
                     | (Inr realm, s2) \<Rightarrow> (Inr True, s2)))))"

text \<open>
  \<open>updateRealm args currentRealm\<close> is the value of the local variable
  \<^verbatim>\<open>updateRealm\<close> of \<^verbatim>\<open>updateManagedFields\<close> when it is sent: the copy of the
  fetched realm after the eight conditional assignments.
\<close>

definition updateRealm :: "RealmArgs \<Rightarrow> 'v RealmRepresentation \<Rightarrow> 'v RealmRepresentation" where
  "updateRealm args currentRealm =
     (let updateRealm = currentRealm;
          updateRealm = (if args_Enabled args \<noteq> None
                         then updateRealm\<lparr>kc_Enabled := args_Enabled args\<rparr> else updateRealm);
          updateRealm = (if args_DisplayName args \<noteq> None
                         then updateRealm\<lparr>kc_DisplayName := args_DisplayName args\<rparr>
                         else updateRealm);
          updateRealm = (if args_DisplayNameHtml args \<noteq> None
                         then updateRealm\<lparr>kc_DisplayNameHTML := args_DisplayNameHtml args\<rparr>
                         else updateRealm);
          updateRealm = (if args_LoginTheme args \<noteq> None
                         then updateRealm\<lparr>kc_LoginTheme := args_LoginTheme args\<rparr>
                         else updateRealm);
          updateRealm = (if args_AccountTheme args \<noteq> None
                         then updateRealm\<lparr>kc_AccountTheme := args_AccountTheme args\<rparr>
                         else updateRealm);
          updateRealm = (if args_AdminTheme args \<noteq> None
                         then updateRealm\<lparr>kc_AdminTheme := args_AdminTheme args\<rparr>
                         else updateRealm);
          updateRealm = (if args_EmailTheme args \<noteq> None
                         then updateRealm\<lparr>kc_EmailTheme := args_EmailTheme args\<rparr>
                         else updateRealm);
          updateRealm = (if args_SmtpServer args \<noteq> None
                         then updateRealm\<lparr>kc_SMTPServer :=
                                Some (convertSmtpConfig (args_SmtpServer args))\<rparr>
                         else updateRealm)
      in updateRealm)"

definition updateManagedFields ::
  "('w, 'v) GoCloak \<Rightarrow> string \<Rightarrow> RealmArgs \<Rightarrow> ('w, 'v) session
     \<Rightarrow> string option \<times> ('w, 'v) session" where
  "updateManagedFields client token args s =
     (case GetRealm client token (args_Name args) s of
        (Inl err, s1) \<Rightarrow> (Some (''failed to get current realm: '' @ err), s1)
      | (Inr currentRealm, s1) \<Rightarrow>
          (case UpdateRealm client token (updateRealm args currentRealm) s1 of
             (Some err, s2) \<Rightarrow> (Some (''failed to update realm: '' @ err), s2)
           | (None, s2) \<Rightarrow> (None, s2)))"

definition readRealmState ::
  "('w, 'v) GoCloak \<Rightarrow> string \<Rightarrow> string \<Rightarrow> ('w, 'v) session
     \<Rightarrow> (failure + RealmState) \<times> ('w, 'v) session" where
  "readRealmState client token realmName s =
     (case GetRealm client token realmName s of
        (Inl err, s1) \<Rightarrow> (Inl (Error (''failed to get realm: '' @ err)), s1)
      | (Inr realm, s1) \<Rightarrow>
          (case kc_Realm realm of
             None \<Rightarrow> (Inl nil_dereference, s1)
           | Some name \<Rightarrow>
               (let state = \<lparr>state_ID = name, state_Name = name, state_Enabled = None,
                              state_DisplayName = None, state_DisplayNameHtml = None,
                              state_LoginTheme = None, state_AccountTheme = None,
                              state_AdminTheme = None, state_EmailTheme = None,
                              state_SmtpServer = None\<rparr>;
                    state = (if kc_Enabled realm \<noteq> None
                             then state\<lparr>state_Enabled := kc_Enabled realm\<rparr> else state);
                    state = (if kc_DisplayName realm \<noteq> None
                             then state\<lparr>state_DisplayName := kc_DisplayName realm\<rparr>
                             else state);
                    state = (if kc_DisplayNameHTML realm \<noteq> None
                             then state\<lparr>state_DisplayNameHtml := kc_DisplayNameHTML realm\<rparr>
                             else state);
                    state = (if kc_LoginTheme realm \<noteq> None
                             then state\<lparr>state_LoginTheme := kc_LoginTheme realm\<rparr>
                             else state);
                    state = (if kc_AccountTheme realm \<noteq> None
                             then state\<lparr>state_AccountTheme := kc_AccountTheme realm\<rparr>
                             else state);
                    state = (if kc_AdminTheme realm \<noteq> None
                             then state\<lparr>state_AdminTheme := kc_AdminTheme realm\<rparr>
                             else state);
                    state = (if kc_EmailTheme realm \<noteq> None
                             then state\<lparr>state_EmailTheme := kc_EmailTheme realm\<rparr>
                             else state);
                    state = (case kc_SMTPServer realm of
                               None \<Rightarrow> state
                             | Some m \<Rightarrow> state\<lparr>state_SmtpServer := convertFromKeycloakSmtp m\<rparr>)
                in (Inr state, s1))))"


section \<open>Resource lifecycle\<close>

record CreateResponse =
  resp_ID :: string
  resp_Output :: RealmState

record UpdateResponse =
  upd_Output :: RealmState

text \<open>
  \<open>DryRunOutput inputs\<close> is the \<^verbatim>\<open>RealmState\<close> literal that \<^verbatim>\<open>Create\<close> and
  \<^verbatim>\<open>Update\<close> return when \<^verbatim>\<open>req.DryRun\<close> is set.
\<close>

definition DryRunOutput :: "RealmArgs \<Rightarrow> RealmState" where
  "DryRunOutput inputs =
     \<lparr>state_ID = args_Name inputs,
      state_Name = args_Name inputs,
      state_Enabled = args_Enabled inputs,
      state_DisplayName = args_DisplayName inputs,
      state_DisplayNameHtml = args_DisplayNameHtml inputs,
      state_LoginTheme = args_LoginTheme inputs,
      state_AccountTheme = args_AccountTheme inputs,
      state_AdminTheme = args_AdminTheme inputs,
      state_EmailTheme = args_EmailTheme inputs,
      state_SmtpServer = args_SmtpServer inputs\<rparr>"

text \<open>
  \<open>minimalRealm inputs\<close> is the local variable \<^verbatim>\<open>minimalRealm\<close> of \<^verbatim>\<open>Create\<close>
  when it is sent to \<^verbatim>\<open>CreateRealm\<close>.
\<close>

definition minimalRealm :: "RealmArgs \<Rightarrow> 'v RealmRepresentation" where
  "minimalRealm inputs =
     (let enabled = True;
          enabled = (case args_Enabled inputs of None \<Rightarrow> enabled | Some e \<Rightarrow> e);
          minimalRealm =
            \<lparr>kc_Realm = Some (args_Name inputs), kc_Enabled = Some enabled,
             kc_DisplayName = None, kc_DisplayNameHTML = None, kc_LoginTheme = None,
             kc_AccountTheme = None, kc_AdminTheme = None, kc_EmailTheme = None,
             kc_SMTPServer = None, kc_Other = Mapping.empty\<rparr>
      in if args_DisplayName inputs \<noteq> None
         then minimalRealm\<lparr>kc_DisplayName := args_DisplayName inputs\<rparr>
         else minimalRealm)"

definition Create ::
  "('w, 'v) request_ctx \<Rightarrow> RealmArgs \<Rightarrow> bool \<Rightarrow> ('w, 'v) session
     \<Rightarrow> (failure + CreateResponse) \<times> ('w, 'v) session" where
  "Create ctx inputs dryRun s =
     (case getProviderConfig ctx of
        Inl p \<Rightarrow> (Inl p, s)
      | Inr config \<Rightarrow>
     (case getKeycloakClient ctx of
        Inl p \<Rightarrow> (Inl p, s)
      | Inr client \<Rightarrow>
     (case cfg_Realm config of
        None \<Rightarrow> (Inl nil_dereference, s)
      | Some adminRealm \<Rightarrow>
     (case LoginAdmin client (cfg_Username config) (cfg_Password config) adminRealm s of
        (Inl err, s1) \<Rightarrow> (Inl (Error (''failed to authenticate: '' @ err)), s1)
      | (Inr token, s1) \<Rightarrow>
     (case realmExists ctx client (args_Name inputs) s1 of
        (Inl (Panic p), s2) \<Rightarrow> (Inl (Panic p), s2)
      | (Inl (Error err), s2) \<Rightarrow>
          (Inl (Error (''failed to check if realm exists: '' @ err)), s2)
      | (Inr exists, s2) \<Rightarrow>
          if dryRun then
            (Inr \<lparr>resp_ID = args_Name inputs, resp_Output = DryRunOutput inputs\<rparr>, s2)
          else
            (case (if \<not> exists then
                     (case CreateRealm client (AccessToken token) (minimalRealm inputs) s2 of
                        (Inl err, s3) \<Rightarrow> (Some err, s3)
                      | (Inr created, s3) \<Rightarrow> (None, s3))
                   else (None, s2)) of
               (Some err, s3) \<Rightarrow> (Inl (Error (''failed to create realm: '' @ err)), s3)
             | (None, s3) \<Rightarrow>
            (case updateManagedFields client (AccessToken token) inputs s3 of
               (Some err, s4) \<Rightarrow>
                 (Inl (Error (''failed to update managed fields: '' @ err)), s4)
             | (None, s4) \<Rightarrow>
            (case readRealmState client (AccessToken token) (args_Name inputs) s4 of
               (Inl (Panic p), s5) \<Rightarrow> (Inl (Panic p), s5)
             | (Inl (Error err), s5) \<Rightarrow>
                 (Inl (Error (''failed to read realm state: '' @ err)), s5)
             | (Inr state, s5) \<Rightarrow>
                 (Inr \<lparr>resp_ID = args_Name inputs, resp_Output = state\<rparr>, s5)))))))))"

definition Update ::
  "('w, 'v) request_ctx \<Rightarrow> RealmArgs \<Rightarrow> bool \<Rightarrow> ('w, 'v) session
     \<Rightarrow> (failure + UpdateResponse) \<times> ('w, 'v) session" where
  "Update ctx inputs dryRun s =
     (case getProviderConfig ctx of
        Inl p \<Rightarrow> (Inl p, s)
      | Inr config \<Rightarrow>
     (case getKeycloakClient ctx of
        Inl p \<Rightarrow> (Inl p, s)
      | Inr client \<Rightarrow>
     (case cfg_Realm config of
        None \<Rightarrow> (Inl nil_dereference, s)
      | Some adminRealm \<Rightarrow>
     (case LoginAdmin client (cfg_Username config) (cfg_Password config) adminRealm s of
        (Inl err, s1) \<Rightarrow> (Inl (Error (''failed to authenticate: '' @ err)), s1)
      | (Inr token, s1) \<Rightarrow>
          if dryRun then (Inr \<lparr>upd_Output = DryRunOutput inputs\<rparr>, s1)
          else
            (case updateManagedFields client (AccessToken token) inputs s1 of
               (Some err, s2) \<Rightarrow>
                 (Inl (Error (''failed to update managed fields: '' @ err)), s2)
             | (None, s2) \<Rightarrow>
            (case readRealmState client (AccessToken token) (args_Name inputs) s2 of
               (Inl (Panic p), s3) \<Rightarrow> (Inl (Panic p), s3)
             | (Inl (Error err), s3) \<Rightarrow>
                 (Inl (Error (''failed to read realm state: '' @ err)), s3)
             | (Inr state, s3) \<Rightarrow> (Inr \<lparr>upd_Output = state\<rparr>, s3)))))))"

text \<open>The empty \<^verbatim>\<open>infer.DeleteResponse{}\<close> is the unit value.\<close>

definition Delete ::
  "('w, 'v) request_ctx \<Rightarrow> RealmState \<Rightarrow> ('w, 'v) session
     \<Rightarrow> (failure + unit) \<times> ('w, 'v) session" where
  "Delete ctx state s =
     (case getProviderConfig ctx of
        Inl p \<Rightarrow> (Inl p, s)
      | Inr config \<Rightarrow>
     (case getKeycloakClient ctx of
        Inl p \<Rightarrow> (Inl p, s)
      | Inr client \<Rightarrow>
     (case cfg_Realm config of
        None \<Rightarrow> (Inl nil_dereference, s)
      | Some adminRealm \<Rightarrow>
     (case LoginAdmin client (cfg_Username config) (cfg_Password config) adminRealm s of
        (Inl err, s1) \<Rightarrow> (Inl (Error (''failed to authenticate: '' @ err)), s1)
      | (Inr token, s1) \<Rightarrow>
     (case DeleteRealm client (AccessToken token) (state_Name state) s1 of
        (Some err, s2) \<Rightarrow>
          (case realmExists ctx client (state_Name state) s2 of
             (Inl (Panic p), s3) \<Rightarrow> (Inl (Panic p), s3)
           | (Inl (Error checkErr), s3) \<Rightarrow>
               (Inl (Error (''failed to delete realm: '' @ err)), s3)
           | (Inr exists, s3) \<Rightarrow>
               if \<not> exists then (Inr (), s3)
               else (Inl (Error (''failed to delete realm: '' @ err)), s3))
      | (None, s2) \<Rightarrow> (Inr (), s2))))))"


section \<open>A sample environment\<close>

text \<open>
  The examples below run the provider against a small admin API held in memory: the
  remote state is the list of realms by name; every login succeeds; a realm that is
  not there is reported with the message \<^verbatim>\<open>404\<close>.
\<close>

definition memory_client :: "((string \<times> 'v RealmRepresentation) list, 'v) GoCloak" where
  "memory_client =
     \<lparr>gc_LoginAdmin = (\<lambda>username password realm w. (Inr \<lparr>AccessToken = ''token''\<rparr>, w)),
      gc_GetRealm = (\<lambda>token realmName w.
         (case map_of w realmName of None \<Rightarrow> (Inl ''404'', w) | Some r \<Rightarrow> (Inr r, w))),
      gc_CreateRealm = (\<lambda>token realm w.
         (case kc_Realm realm of
            None \<Rightarrow> (Inl ''400'', w)
          | Some n \<Rightarrow>
              (case map_of w n of
                 Some r \<Rightarrow> (Inl ''409'', w)
               | None \<Rightarrow> (Inr n, (n, realm) # w)))),
      gc_UpdateRealm = (\<lambda>token realm w.
         (case kc_Realm realm of
            None \<Rightarrow> (Some ''404'', w)
          | Some n \<Rightarrow>
              (case map_of w n of
                 None \<Rightarrow> (Some ''404'', w)
               | Some r \<Rightarrow> (None, AList.update n realm w)))),
      gc_DeleteRealm = (\<lambda>token realmName w.
         (case map_of w realmName of
            None \<Rightarrow> (Some ''404'', w)
          | Some r \<Rightarrow> (None, AList.delete realmName w)))\<rparr>"

definition memory_ctx :: "((string \<times> 'v RealmRepresentation) list, 'v) request_ctx" where
  "memory_ctx =
     \<lparr>ctx_config = Some \<lparr>cfg_URL = ''http://localhost:8080'', cfg_Username = ''admin'',
                          cfg_Password = ''admin'', cfg_Realm = Some ''master'',
                          cfg_BasePath = Some ''/'', cfg_Insecure = Some False\<rparr>,
      ctx_client = Some memory_client\<rparr>"

definition acme_args :: RealmArgs where
  "acme_args =
     \<lparr>args_Name = ''acme'', args_Enabled = None, args_DisplayName = None,
      args_DisplayNameHtml = None, args_LoginTheme = None, args_AccountTheme = None,
      args_AdminTheme = None, args_EmailTheme = None, args_SmtpServer = None\<rparr>"

definition acme_realm :: "nat RealmRepresentation" where
  "acme_realm =
     \<lparr>kc_Realm = Some ''acme'', kc_Enabled = Some False, kc_DisplayName = Some ''ACME'',
      kc_DisplayNameHTML = None, kc_LoginTheme = None, kc_AccountTheme = None,
      kc_AdminTheme = None, kc_EmailTheme = None, kc_SMTPServer = None,
      kc_Other = Mapping.update ''accessTokenLifespan'' 300 Mapping.empty\<rparr>"

definition no_realms :: "((string \<times> nat RealmRepresentation) list, nat) session" where
  "no_realms = \<lparr>remote = [], calls = []\<rparr>"

definition acme_only :: "((string \<times> nat RealmRepresentation) list, nat) session" where
  "acme_only = \<lparr>remote = [(''acme'', acme_realm)], calls = []\<rparr>"

definition themed_args :: RealmArgs where
  "themed_args = acme_args\<lparr>args_LoginTheme := Some ''custom''\<rparr>"

definition nameless_only :: "((string \<times> nat RealmRepresentation) list, nat) session" where
  "nameless_only = \<lparr>remote = [(''ghost'', acme_realm\<lparr>kc_Realm := None\<rparr>)], calls = []\<rparr>"

text \<open>A variant of the admin API that refuses every deletion with the message \<^verbatim>\<open>403\<close>.\<close>

definition locked_client :: "((string \<times> 'v RealmRepresentation) list, 'v) GoCloak" where
  "locked_client = memory_client\<lparr>gc_DeleteRealm := (\<lambda>token realmName w. (Some ''403'', w))\<rparr>"

definition locked_ctx :: "((string \<times> 'v RealmRepresentation) list, 'v) request_ctx" where
  "locked_ctx = memory_ctx\<lparr>ctx_client := Some locked_client\<rparr>"

definition populated_smtp :: SmtpServerConfig where
  "populated_smtp =
     \<lparr>smtp_Host = Some ''smtp.example.com'', smtp_Port = Some 587,
      smtp_From = Some ''noreply@example.com'', smtp_FromName = Some ''ACME'',
      smtp_StartTls = Some True, smtp_Auth = Some True,
      smtp_Username = Some ''mailer'', smtp_Password = Some ''secret''\<rparr>"

definition negative_port_smtp :: SmtpServerConfig where
  "negative_port_smtp = populated_smtp\<lparr>smtp_Port := Some (- 1)\<rparr>"

text \<open>
  The reference value of a string of decimal digits: the natural number it denotes,
  without any bound. It is what \<open>parseInt\<close> is compared with.
\<close>

definition decimal_value :: "string \<Rightarrow> nat" where
  "decimal_value s = foldl (\<lambda>v c. v * 10 + (of_char c - of_char (CHR ''0''))) 0 s"


section \<open>Properties of the field codec\<close>

subsection \<open>Parsing what was printed\<close>

lemma parseInt_loop_append:
  "parseInt_loop a (xs @ ys) = (case parseInt_loop a xs of None \<Rightarrow> None | Some b \<Rightarrow> parseInt_loop b ys)"
  by (induction xs arbitrary: a) auto

lemma below_ten:
  "(d::nat) < 10 \<Longrightarrow>
   d = 0 \<or> d = 1 \<or> d = 2 \<or> d = 3 \<or> d = 4 \<or> d = 5 \<or> d = 6 \<or> d = 7 \<or> d = 8 \<or> d = 9"
  by arith

lemma parseInt_loop_digit_char:
  "d < 10 \<Longrightarrow> parseInt_loop a [digit_char d] = Some (a * 10 + word_of_nat d)"
  using below_ten[of d] by (auto simp add: digit_char_def)

lemma parseInt_loop_decimal:
  "parseInt_loop a (decimal n) = Some (a * 10 ^ length (decimal n) + word_of_nat n)"
proof (induction n arbitrary: a rule: decimal.induct)
  case (1 n)
  show ?case
  proof (cases "n < 10")
    case True
    then have "decimal n = [digit_char n]" by (subst decimal.simps) simp
    with True show ?thesis by (simp add: parseInt_loop_digit_char del: parseInt_loop.simps)
  next
    case False
    then have d: "decimal n = decimal (n div 10) @ [digit_char (n mod 10)]"
      by (subst decimal.simps) simp
    have w: "word_of_nat n = (word_of_nat (n div 10) * 10 + word_of_nat (n mod 10) :: go_int)"
      by (metis (no_types) of_nat_add of_nat_mult of_nat_numeral div_mult_mod_eq)
    have "parseInt_loop a (decimal (n div 10)) =
        Some (a * 10 ^ length (decimal (n div 10)) + word_of_nat (n div 10))"
      by (rule "1.IH"[OF False])
    then show ?thesis
      by (simp add: d w parseInt_loop_append parseInt_loop_digit_char algebra_simps del: parseInt_loop.simps)
  qed
qed

lemma decimal_nonempty: "decimal n \<noteq> []"
  by (subst decimal.simps) simp

lemma parseInt_decimal: "parseInt (decimal n) = Some (word_of_nat n)"
  by (simp add: parseInt_def decimal_nonempty parseInt_loop_decimal)

lemma parseInt_Sprintf_d: "0 \<le> sint p \<Longrightarrow> parseInt (Sprintf_d p) = Some p"
  by (simp add: Sprintf_d_def parseInt_decimal)

lemma parseInt_Sprintf_d_negative: "sint p < 0 \<Longrightarrow> parseInt (Sprintf_d p) = None"
  by (simp add: Sprintf_d_def parseInt_def)

lemma parseInt_loop_non_digit:
  "\<exists>c\<in>set s. c < CHR ''0'' \<or> CHR ''9'' < c \<Longrightarrow> parseInt_loop a s = None"
  by (induction s arbitrary: a) auto

lemma parseInt_non_digit:
  "\<exists>c\<in>set s. c < CHR ''0'' \<or> CHR ''9'' < c \<Longrightarrow> parseInt s = None"
  by (simp add: parseInt_def parseInt_loop_non_digit)

lemma parseInt_loop_digits:
  "\<forall>c\<in>set s. CHR ''0'' \<le> c \<and> c \<le> CHR ''9'' \<Longrightarrow>
   parseInt_loop (word_of_nat v) s =
     Some (word_of_nat (foldl (\<lambda>v c. v * 10 + (of_char c - of_char (CHR ''0''))) v s))"
proof (induction s arbitrary: v)
  case Nil
  then show ?case by simp
next
  case (Cons c s)
  have "parseInt_loop (word_of_nat (v * 10 + (of_char c - of_char (CHR ''0'')))) s =
    Some (word_of_nat (foldl (\<lambda>v c. v * 10 + (of_char c - of_char (CHR ''0''))) (v * 10 + (of_char c - of_char (CHR ''0''))) s))"
    using Cons.prems by (intro Cons.IH) simp
  moreover have "\<not> (c < CHR ''0'' \<or> CHR ''9'' < c)"
    using Cons.prems by (auto simp: not_less)
  ultimately show ?case by (simp del: less_char_simp less_eq_char_simp)
qed

lemma lookup_nonempty: "Mapping.lookup m k = Some v \<Longrightarrow> \<not> Mapping.is_empty m"
  by (auto simp: Mapping.is_empty_def keys_dom_lookup)

lemma encoded_host:
  "Mapping.lookup (convertSmtpConfig (Some c)) ''host'' =
     smtp_Host c"
  by (simp add: convertSmtpConfig_def Let_def Mapping.lookup_update' split: option.splits)

lemma encoded_port:
  "Mapping.lookup (convertSmtpConfig (Some c)) ''port'' =
     map_option Sprintf_d (smtp_Port c)"
  by (simp add: convertSmtpConfig_def Let_def Mapping.lookup_update' split: option.splits)

lemma encoded_from:
  "Mapping.lookup (convertSmtpConfig (Some c)) ''from'' =
     smtp_From c"
  by (simp add: convertSmtpConfig_def Let_def Mapping.lookup_update' split: option.splits)

lemma encoded_fromDisplayName:
  "Mapping.lookup (convertSmtpConfig (Some c)) ''fromDisplayName'' =
     smtp_FromName c"
  by (simp add: convertSmtpConfig_def Let_def Mapping.lookup_update' split: option.splits)

lemma encoded_starttls:
  "Mapping.lookup (convertSmtpConfig (Some c)) ''starttls'' =
     map_option (\<lambda>b. if b then ''true'' else ''false'') (smtp_StartTls c)"
  by (simp add: convertSmtpConfig_def Let_def Mapping.lookup_update' split: option.splits)

lemma encoded_auth:
  "Mapping.lookup (convertSmtpConfig (Some c)) ''auth'' =
     Some (if smtp_Auth c = Some True then ''true'' else ''false'')"
  by (simp add: convertSmtpConfig_def Let_def Mapping.lookup_update' split: option.splits)

lemma encoded_user:
  "Mapping.lookup (convertSmtpConfig (Some c)) ''user'' =
     (if smtp_Auth c = Some True then smtp_Username c else None)"
  by (simp add: convertSmtpConfig_def Let_def Mapping.lookup_update' split: option.splits)

lemma encoded_password:
  "Mapping.lookup (convertSmtpConfig (Some c)) ''password'' =
     (if smtp_Auth c = Some True then smtp_Password c else None)"
  by (simp add: convertSmtpConfig_def Let_def Mapping.lookup_update' split: option.splits)

lemma encoded_nonempty: "\<not> Mapping.is_empty (convertSmtpConfig (Some c))"
  using encoded_auth[of c] by (auto dest: lookup_nonempty)

lemma case_option_id: "(case x of None \<Rightarrow> None | Some v \<Rightarrow> Some v) = x"
  by (cases x) simp_all

lemma assign_if_present:
  "(case x of None \<Rightarrow> r | Some v \<Rightarrow> r\<lparr>smtp_Host := h v\<rparr>) =
     r\<lparr>smtp_Host := (case x of None \<Rightarrow> smtp_Host r | Some v \<Rightarrow> h v)\<rparr>"
  "(case x of None \<Rightarrow> r | Some v \<Rightarrow> r\<lparr>smtp_Port := p v\<rparr>) =
     r\<lparr>smtp_Port := (case x of None \<Rightarrow> smtp_Port r | Some v \<Rightarrow> p v)\<rparr>"
  "(case x of None \<Rightarrow> r | Some v \<Rightarrow> r\<lparr>smtp_From := h v\<rparr>) =
     r\<lparr>smtp_From := (case x of None \<Rightarrow> smtp_From r | Some v \<Rightarrow> h v)\<rparr>"
  "(case x of None \<Rightarrow> r | Some v \<Rightarrow> r\<lparr>smtp_FromName := h v\<rparr>) =
     r\<lparr>smtp_FromName := (case x of None \<Rightarrow> smtp_FromName r | Some v \<Rightarrow> h v)\<rparr>"
  "(case x of None \<Rightarrow> r | Some v \<Rightarrow> r\<lparr>smtp_StartTls := b v\<rparr>) =
     r\<lparr>smtp_StartTls := (case x of None \<Rightarrow> smtp_StartTls r | Some v \<Rightarrow> b v)\<rparr>"
  "(case x of None \<Rightarrow> r | Some v \<Rightarrow> r\<lparr>smtp_Username := h v\<rparr>) =
     r\<lparr>smtp_Username := (case x of None \<Rightarrow> smtp_Username r | Some v \<Rightarrow> h v)\<rparr>"
  "(case x of None \<Rightarrow> r | Some v \<Rightarrow> r\<lparr>smtp_Password := h v\<rparr>) =
     r\<lparr>smtp_Password := (case x of None \<Rightarrow> smtp_Password r | Some v \<Rightarrow> h v)\<rparr>"
  by (cases x; simp)+

lemma decoded:
  assumes "\<not> Mapping.is_empty m"
  shows "convertFromKeycloakSmtp m =
     Some \<lparr>smtp_Host = Mapping.lookup m ''host'',
           smtp_Port = (case Mapping.lookup m ''port'' of None \<Rightarrow> None | Some port \<Rightarrow> parseInt port),
           smtp_From = Mapping.lookup m ''from'',
           smtp_FromName = Mapping.lookup m ''fromDisplayName'',
           smtp_StartTls = map_option (\<lambda>starttls. starttls = ''true'') (Mapping.lookup m ''starttls''),
           smtp_Auth = map_option (\<lambda>auth. auth = ''true'') (Mapping.lookup m ''auth''),
           smtp_Username = (if Mapping.lookup m ''auth'' = Some ''true'' then Mapping.lookup m ''user'' else None),
           smtp_Password = (if Mapping.lookup m ''auth'' = Some ''true'' then Mapping.lookup m ''password'' else None)\<rparr>"
proof (cases "Mapping.lookup m ''auth''")
  case None
  with assms show ?thesis
    by (simp add: convertFromKeycloakSmtp_def Let_def assign_if_present case_option_id
        map_option_case cong: option.case_cong if_cong)
next
  case (Some auth)
  with assms show ?thesis
    by (simp add: convertFromKeycloakSmtp_def Let_def assign_if_present case_option_id
        map_option_case cong: option.case_cong if_cong)
qed

lemmas encoded = encoded_host encoded_port encoded_from encoded_fromDisplayName
  encoded_starttls encoded_auth encoded_user encoded_password

lemma decoded_port:
  "\<not> Mapping.is_empty m \<Longrightarrow>
   map_option smtp_Port (convertFromKeycloakSmtp m) =
     Some (case Mapping.lookup m ''port'' of None \<Rightarrow> None | Some port \<Rightarrow> parseInt port)"
  by (simp add: decoded)

lemma decoded_auth:
  "\<not> Mapping.is_empty m \<Longrightarrow>
   map_option smtp_Auth (convertFromKeycloakSmtp m) =
     Some (map_option (\<lambda>auth. auth = ''true'') (Mapping.lookup m ''auth''))"
  by (simp add: decoded)


subsection \<open>Round trip of the SMTP configuration\<close>

text \<open>
  C4, as stated, fails: a configuration with every field present and the port \<open>-1\<close> is
  encoded with the port \<^verbatim>\<open>-1\<close>, whose first character is not a digit, so the decoded
  configuration has no port although the source has one.
\<close>

theorem negative_port_lost:
  "convertFromKeycloakSmtp (convertSmtpConfig (Some negative_port_smtp)) =
     Some (negative_port_smtp\<lparr>smtp_Port := None\<rparr>) \<and>
   smtp_Port negative_port_smtp = Some (- 1)"
  by (simp add: decoded[OF encoded_nonempty] encoded negative_port_smtp_def populated_smtp_def
      parseInt_Sprintf_d_negative)

text \<open>
  C4, amended: for every SMTP configuration whose port is absent or not negative,
  decoding the encoded map gives back host, port, from, fromName and startTls as they
  are in the source; auth comes back as true when the source has auth true and as false
  otherwise; username and password come back as in the source when auth is true, and
  are absent when auth is false or absent.
\<close>

theorem smtp_round_trip:
  assumes "case smtp_Port c of None \<Rightarrow> True | Some p \<Rightarrow> 0 \<le> sint p"
  shows "convertFromKeycloakSmtp (convertSmtpConfig (Some c)) =
    Some \<lparr>smtp_Host = smtp_Host c, smtp_Port = smtp_Port c, smtp_From = smtp_From c,
          smtp_FromName = smtp_FromName c, smtp_StartTls = smtp_StartTls c,
          smtp_Auth = Some (smtp_Auth c = Some True),
          smtp_Username = (if smtp_Auth c = Some True then smtp_Username c else None),
          smtp_Password = (if smtp_Auth c = Some True then smtp_Password c else None)\<rparr>"
proof -
  have starttls: "map_option (\<lambda>starttls. starttls = ''true'')
      (map_option (\<lambda>b. if b then ''true'' else ''false'') (smtp_StartTls c)) = smtp_StartTls c"
    by (cases "smtp_StartTls c") auto
  show ?thesis
    using assms
    by (cases "smtp_Port c")
       (simp_all add: decoded[OF encoded_nonempty] encoded starttls parseInt_Sprintf_d)
qed

theorem smtp_round_trip_witness:
  "convertFromKeycloakSmtp (convertSmtpConfig (Some populated_smtp)) = Some populated_smtp"
  using smtp_round_trip[of populated_smtp] by (simp add: populated_smtp_def)


subsection \<open>Decoding the port\<close>

text \<open>
  C7: \<^verbatim>\<open>"587"\<close> decodes to 587 and \<^verbatim>\<open>"abc"\<close> to absent; every string with a character
  that is not a decimal digit decodes to absent, and a map whose \<^verbatim>\<open>port\<close> entry is such a
  string is decoded to a configuration (no failure) in which the port is absent. A
  \<^verbatim>\<open>port\<close> entry \<^verbatim>\<open>"587"\<close> is decoded to the port 587.
\<close>

theorem port_decoding:
  assumes "\<exists>c\<in>set s. c < CHR ''0'' \<or> CHR ''9'' < c"
    and "Mapping.lookup keycloakSmtp ''port'' = Some s"
  shows "parseInt ''587'' = Some 587 \<and> parseInt ''abc'' = None \<and> parseInt s = None \<and>
    map_option smtp_Port (convertFromKeycloakSmtp keycloakSmtp) = Some None \<and>
    map_option smtp_Port (convertFromKeycloakSmtp (Mapping.update ''port'' ''587'' keycloakSmtp)) =
      Some (Some 587)"
  using assms
  by (simp add: decoded_port lookup_nonempty parseInt_non_digit) (simp add: parseInt_def)

theorem port_decoding_witness:
  "parseInt ''5x7'' = None \<and>
   map_option smtp_Port
     (convertFromKeycloakSmtp (Mapping.update ''port'' ''5x7'' Mapping.empty)) = Some None"
  using port_decoding[of "''5x7''" "Mapping.update ''port'' ''5x7'' Mapping.empty"] by simp

text \<open>
  C9: \<open>parseInt\<close> checks no overflow. On a non-empty string of decimal digits it returns
  the value of the digits reduced modulo \<open>2 ^ 64\<close>, the width of \<^verbatim>\<open>int\<close>; the digits of
  \<open>2 ^ 63\<close>, one above the largest \<^verbatim>\<open>int\<close>, give the negative number \<open>- 2 ^ 63\<close> and
  not absent. The empty string decodes to absent.
\<close>

theorem parseInt_wraps:
  assumes "s \<noteq> []" and "\<forall>c\<in>set s. CHR ''0'' \<le> c \<and> c \<le> CHR ''9''"
  shows "parseInt s = Some (word_of_nat (decimal_value s)) \<and>
    unat (word_of_nat (decimal_value s) :: go_int) = decimal_value s mod 2 ^ 64 \<and>
    parseInt ''9223372036854775808'' = Some (- 9223372036854775808) \<and>
    sint (- 9223372036854775808 :: go_int) = - 9223372036854775808 \<and>
    parseInt [] = None"
proof -
  have "parseInt s = Some (word_of_nat (decimal_value s))"
    using assms parseInt_loop_digits[of s 0] by (simp add: parseInt_def decimal_value_def)
  moreover have "unat (word_of_nat (decimal_value s) :: go_int) = decimal_value s mod 2 ^ 64"
    by (simp add: unat_of_nat)
  moreover have "parseInt ''9223372036854775808'' = Some (- 9223372036854775808)"
    by (simp add: parseInt_def)
  moreover have "sint (- 9223372036854775808 :: go_int) = - 9223372036854775808"
    by simp
  moreover have "parseInt [] = None"
    by (simp add: parseInt_def)
  ultimately show ?thesis by simp
qed

theorem parseInt_wraps_witness:
  "parseInt ''18446744073709551617'' = Some 1 \<and>
   decimal_value ''18446744073709551617'' = 18446744073709551617"
  using parseInt_wraps[of "''18446744073709551617''"] by (simp add: decimal_value_def)


subsection \<open>The auth key\<close>

text \<open>
  C10: for every SMTP configuration, also the one with every field absent, the encoded
  map has the key \<^verbatim>\<open>auth\<close>, with the value \<^verbatim>\<open>true\<close> exactly when auth is present and
  true and \<^verbatim>\<open>false\<close> otherwise. So the encoded map is never empty, and decoding it gives
  a configuration whose auth is present: an absent auth comes back as false.
\<close>

theorem auth_always_encoded:
  "Mapping.lookup (convertSmtpConfig (Some c)) ''auth'' =
     Some (if smtp_Auth c = Some True then ''true'' else ''false'') \<and>
   \<not> Mapping.is_empty (convertSmtpConfig (Some c)) \<and>
   map_option smtp_Auth (convertFromKeycloakSmtp (convertSmtpConfig (Some c))) =
     Some (Some (smtp_Auth c = Some True))"
  by (simp add: encoded_auth encoded_nonempty decoded_auth)



section \<open>Properties of the merge engine and of the lifecycle\<close>

subsection \<open>The log of remote calls\<close>

lemmas wrappers = LoginAdmin_def GetRealm_def CreateRealm_def UpdateRealm_def DeleteRealm_def
lemmas lookups = getProviderConfig_def getKeycloakClient_def

lemma LoginAdmin_calls:
  "LoginAdmin client u p r s = (reply, s') \<Longrightarrow> calls s' = calls s @ [CallLoginAdmin u p r]"
  by (auto simp: LoginAdmin_def split: prod.splits)

lemma GetRealm_calls:
  "GetRealm client token n s = (reply, s') \<Longrightarrow> calls s' = calls s @ [CallGetRealm token n]"
  by (auto simp: GetRealm_def split: prod.splits)

lemma CreateRealm_calls:
  "CreateRealm client token r s = (reply, s') \<Longrightarrow> calls s' = calls s @ [CallCreateRealm token r]"
  by (auto simp: CreateRealm_def split: prod.splits)

lemma UpdateRealm_calls:
  "UpdateRealm client token r s = (reply, s') \<Longrightarrow> calls s' = calls s @ [CallUpdateRealm token r]"
  by (auto simp: UpdateRealm_def split: prod.splits)

lemma DeleteRealm_calls:
  "DeleteRealm client token n s = (reply, s') \<Longrightarrow> calls s' = calls s @ [CallDeleteRealm token n]"
  by (auto simp: DeleteRealm_def split: prod.splits)

lemma realmExists_no_write:
  "filter is_write (calls (snd (realmExists ctx client n s))) = filter is_write (calls s)"
  by (auto simp: realmExists_def lookups dest!: GetRealm_calls LoginAdmin_calls
      split: sum.splits option.splits prod.splits)

lemma dryRun_no_write:
  "filter is_write (calls (snd (Create ctx inputs True s))) = filter is_write (calls s)"
proof -
  have *: "filter is_write (calls s2) = filter is_write (calls s)"
    if "LoginAdmin client u p r s = (reply, s1)" "realmExists ctx client n s1 = (x, s2)"
    for client u p r reply s1 n x s2
    using realmExists_no_write[of ctx client n s1] LoginAdmin_calls[OF that(1)] that(2) by simp
  show ?thesis
    by (auto simp: Create_def lookups dest: * LoginAdmin_calls
        split: sum.splits option.splits prod.splits failure.splits)
qed

lemma realmExists_no_panic:
  assumes "ctx_config ctx = Some config" and "cfg_Realm config = Some adminRealm"
  shows "fst (realmExists ctx client n s) \<noteq> Inl (Panic p)"
  using assms by (auto simp: realmExists_def lookups split: sum.splits prod.splits)

subsection \<open>The overlay\<close>

lemma keep_or_assign:
  "(if c then r\<lparr>kc_Enabled := e\<rparr> else r) = r\<lparr>kc_Enabled := (if c then e else kc_Enabled r)\<rparr>"
  "(if c then r\<lparr>kc_DisplayName := d\<rparr> else r) = r\<lparr>kc_DisplayName := (if c then d else kc_DisplayName r)\<rparr>"
  "(if c then r\<lparr>kc_DisplayNameHTML := d\<rparr> else r) = r\<lparr>kc_DisplayNameHTML := (if c then d else kc_DisplayNameHTML r)\<rparr>"
  "(if c then r\<lparr>kc_LoginTheme := d\<rparr> else r) = r\<lparr>kc_LoginTheme := (if c then d else kc_LoginTheme r)\<rparr>"
  "(if c then r\<lparr>kc_AccountTheme := d\<rparr> else r) = r\<lparr>kc_AccountTheme := (if c then d else kc_AccountTheme r)\<rparr>"
  "(if c then r\<lparr>kc_AdminTheme := d\<rparr> else r) = r\<lparr>kc_AdminTheme := (if c then d else kc_AdminTheme r)\<rparr>"
  "(if c then r\<lparr>kc_EmailTheme := d\<rparr> else r) = r\<lparr>kc_EmailTheme := (if c then d else kc_EmailTheme r)\<rparr>"
  "(if c then r\<lparr>kc_SMTPServer := m\<rparr> else r) = r\<lparr>kc_SMTPServer := (if c then m else kc_SMTPServer r)\<rparr>"
  by simp_all

lemma updateRealm_closed_form:
  "updateRealm args currentRealm =
     currentRealm
       \<lparr>kc_Enabled := (if args_Enabled args \<noteq> None then args_Enabled args else kc_Enabled currentRealm),
        kc_DisplayName := (if args_DisplayName args \<noteq> None then args_DisplayName args else kc_DisplayName currentRealm),
        kc_DisplayNameHTML := (if args_DisplayNameHtml args \<noteq> None then args_DisplayNameHtml args else kc_DisplayNameHTML currentRealm),
        kc_LoginTheme := (if args_LoginTheme args \<noteq> None then args_LoginTheme args else kc_LoginTheme currentRealm),
        kc_AccountTheme := (if args_AccountTheme args \<noteq> None then args_AccountTheme args else kc_AccountTheme currentRealm),
        kc_AdminTheme := (if args_AdminTheme args \<noteq> None then args_AdminTheme args else kc_AdminTheme currentRealm),
        kc_EmailTheme := (if args_EmailTheme args \<noteq> None then args_EmailTheme args else kc_EmailTheme currentRealm),
        kc_SMTPServer := (if args_SmtpServer args \<noteq> None then Some (convertSmtpConfig (args_SmtpServer args)) else kc_SMTPServer currentRealm)\<rparr>"
  by (simp add: updateRealm_def Let_def keep_or_assign)

lemma updateManagedFields_calls:
  assumes "GetRealm client token (args_Name args) s = (Inr currentRealm, s1)"
  shows "calls (snd (updateManagedFields client token args s)) =
    calls s1 @ [CallUpdateRealm token (updateRealm args currentRealm)]"
  using assms
  by (auto simp: updateManagedFields_def dest: UpdateRealm_calls split: prod.splits option.splits)

lemma updateManagedFields_extends:
  "prefix (calls s) (calls (snd (updateManagedFields client token args s)))"
  by (auto simp: updateManagedFields_def dest!: GetRealm_calls UpdateRealm_calls
      split: prod.splits sum.splits option.splits)

text \<open>
  C1: the overlay preserves what it does not manage. Whenever \<open>updateManagedFields\<close>
  has fetched a realm, the one call that follows is \<^verbatim>\<open>UpdateRealm\<close> with the payload
  \<open>updateRealm args currentRealm\<close>, and in this payload the realm name and every attribute
  outside the managed set have the value they have in the fetched realm, for every
  desired \<open>args\<close>.
\<close>

theorem overlay_preserves_unmanaged:
  assumes "GetRealm client token (args_Name args) s = (Inr currentRealm, s1)"
  shows "calls (snd (updateManagedFields client token args s)) =
      calls s1 @ [CallUpdateRealm token (updateRealm args currentRealm)] \<and>
    kc_Realm (updateRealm args currentRealm) = kc_Realm currentRealm \<and>
    kc_Other (updateRealm args currentRealm) = kc_Other currentRealm"
  using updateManagedFields_calls[OF assms] by (simp add: updateRealm_closed_form)

theorem overlay_preserves_unmanaged_witness:
  "calls (snd (updateManagedFields memory_client ''token'' themed_args acme_only)) =
     [CallGetRealm ''token'' ''acme'',
      CallUpdateRealm ''token'' (updateRealm themed_args acme_realm)] \<and>
   kc_Realm (updateRealm themed_args acme_realm) = Some ''acme'' \<and>
   kc_Other (updateRealm themed_args acme_realm) =
     Mapping.update ''accessTokenLifespan'' 300 Mapping.empty"
  using overlay_preserves_unmanaged[of memory_client "''token''" themed_args acme_only acme_realm
      "\<lparr>remote = [(''acme'', acme_realm)], calls = [CallGetRealm ''token'' ''acme'']\<rparr>"]
  by (simp add: GetRealm_def memory_client_def themed_args_def acme_args_def acme_only_def acme_realm_def)

text \<open>
  C2: absence means no-op. For each of the eight managed fields, if the field is absent
  in the desired \<open>args\<close>, the payload that \<open>updateManagedFields\<close> sends has, in the
  corresponding attribute, the value of the fetched realm.
\<close>

theorem absent_field_keeps_remote:
  assumes "GetRealm client token (args_Name args) s = (Inr currentRealm, s1)"
  shows "calls (snd (updateManagedFields client token args s)) =
      calls s1 @ [CallUpdateRealm token (updateRealm args currentRealm)] \<and>
    (args_Enabled args = None \<longrightarrow> kc_Enabled (updateRealm args currentRealm) = kc_Enabled currentRealm) \<and>
    (args_DisplayName args = None \<longrightarrow> kc_DisplayName (updateRealm args currentRealm) = kc_DisplayName currentRealm) \<and>
    (args_DisplayNameHtml args = None \<longrightarrow> kc_DisplayNameHTML (updateRealm args currentRealm) = kc_DisplayNameHTML currentRealm) \<and>
    (args_LoginTheme args = None \<longrightarrow> kc_LoginTheme (updateRealm args currentRealm) = kc_LoginTheme currentRealm) \<and>
    (args_AccountTheme args = None \<longrightarrow> kc_AccountTheme (updateRealm args currentRealm) = kc_AccountTheme currentRealm) \<and>
    (args_AdminTheme args = None \<longrightarrow> kc_AdminTheme (updateRealm args currentRealm) = kc_AdminTheme currentRealm) \<and>
    (args_EmailTheme args = None \<longrightarrow> kc_EmailTheme (updateRealm args currentRealm) = kc_EmailTheme currentRealm) \<and>
    (args_SmtpServer args = None \<longrightarrow> kc_SMTPServer (updateRealm args currentRealm) = kc_SMTPServer currentRealm)"
  using updateManagedFields_calls[OF assms] by (simp add: updateRealm_closed_form)

theorem absent_field_keeps_remote_witness:
  "calls (snd (updateManagedFields memory_client ''token'' acme_args acme_only)) =
     [CallGetRealm ''token'' ''acme'',
      CallUpdateRealm ''token'' (updateRealm acme_args acme_realm)] \<and>
   kc_Enabled (updateRealm acme_args acme_realm) = Some False \<and>
   kc_DisplayName (updateRealm acme_args acme_realm) = Some ''ACME'' \<and>
   kc_DisplayNameHTML (updateRealm acme_args acme_realm) = None \<and>
   kc_LoginTheme (updateRealm acme_args acme_realm) = None \<and>
   kc_AccountTheme (updateRealm acme_args acme_realm) = None \<and>
   kc_AdminTheme (updateRealm acme_args acme_realm) = None \<and>
   kc_EmailTheme (updateRealm acme_args acme_realm) = None \<and>
   kc_SMTPServer (updateRealm acme_args acme_realm) = None"
  using absent_field_keeps_remote[of memory_client "''token''" acme_args acme_only acme_realm
      "\<lparr>remote = [(''acme'', acme_realm)], calls = [CallGetRealm ''token'' ''acme'']\<rparr>"]
  by (simp add: GetRealm_def memory_client_def acme_args_def acme_only_def acme_realm_def)

subsection \<open>The projection\<close>

lemma keep_or_report:
  "(if c then r\<lparr>state_Enabled := e\<rparr> else r) = r\<lparr>state_Enabled := (if c then e else state_Enabled r)\<rparr>"
  "(if c then r\<lparr>state_DisplayName := d\<rparr> else r) = r\<lparr>state_DisplayName := (if c then d else state_DisplayName r)\<rparr>"
  "(if c then r\<lparr>state_DisplayNameHtml := d\<rparr> else r) = r\<lparr>state_DisplayNameHtml := (if c then d else state_DisplayNameHtml r)\<rparr>"
  "(if c then r\<lparr>state_LoginTheme := d\<rparr> else r) = r\<lparr>state_LoginTheme := (if c then d else state_LoginTheme r)\<rparr>"
  "(if c then r\<lparr>state_AccountTheme := d\<rparr> else r) = r\<lparr>state_AccountTheme := (if c then d else state_AccountTheme r)\<rparr>"
  "(if c then r\<lparr>state_AdminTheme := d\<rparr> else r) = r\<lparr>state_AdminTheme := (if c then d else state_AdminTheme r)\<rparr>"
  "(if c then r\<lparr>state_EmailTheme := d\<rparr> else r) = r\<lparr>state_EmailTheme := (if c then d else state_EmailTheme r)\<rparr>"
  "(case x of None \<Rightarrow> r | Some m \<Rightarrow> r\<lparr>state_SmtpServer := f m\<rparr>) =
     r\<lparr>state_SmtpServer := (case x of None \<Rightarrow> state_SmtpServer r | Some m \<Rightarrow> f m)\<rparr>"
  by (simp_all split: option.splits)

lemma present_or_None: "(if x \<noteq> None then x else None) = x"
  by simp

lemma readRealmState_closed_form:
  assumes "GetRealm client token realmName s = (Inr realm, s1)" and "kc_Realm realm = Some name"
  shows "readRealmState client token realmName s =
    (Inr \<lparr>state_ID = name, state_Name = name, state_Enabled = kc_Enabled realm,
          state_DisplayName = kc_DisplayName realm,
          state_DisplayNameHtml = kc_DisplayNameHTML realm,
          state_LoginTheme = kc_LoginTheme realm, state_AccountTheme = kc_AccountTheme realm,
          state_AdminTheme = kc_AdminTheme realm, state_EmailTheme = kc_EmailTheme realm,
          state_SmtpServer =
            (case kc_SMTPServer realm of None \<Rightarrow> None | Some m \<Rightarrow> convertFromKeycloakSmtp m)\<rparr>,
     s1)"
  using assms
  by (simp add: readRealmState_def Let_def keep_or_report present_or_None
      cong: option.case_cong if_cong)

lemma readRealmState_extends:
  "prefix (calls s) (calls (snd (readRealmState client token realmName s)))"
proof (cases "GetRealm client token realmName s")
  case (Pair reply s1)
  then have "snd (readRealmState client token realmName s) = s1"
    by (simp add: readRealmState_def Let_def split: sum.splits option.splits)
  with GetRealm_calls[OF Pair] show ?thesis by simp
qed

text \<open>
  C8: \<open>readRealmState\<close> dereferences the realm name of the fetched realm without a
  check. When the fetch succeeds with a realm whose name is nil, the result is the
  nil-dereference panic, not an error; when the name is present, the projection returns
  a state whose id and name are that name.
\<close>

theorem readRealmState_nil_name:
  assumes "GetRealm client token realmName s = (Inr realm, s1)"
  shows "(kc_Realm realm = None \<longrightarrow>
            readRealmState client token realmName s = (Inl nil_dereference, s1)) \<and>
         (kc_Realm realm \<noteq> None \<longrightarrow>
            (\<exists>state. readRealmState client token realmName s = (Inr state, s1) \<and>
               Some (state_ID state) = kc_Realm realm \<and>
               Some (state_Name state) = kc_Realm realm))"
proof (cases "kc_Realm realm")
  case None
  with assms show ?thesis by (simp add: readRealmState_def)
next
  case (Some name)
  with readRealmState_closed_form[OF assms Some] show ?thesis by simp
qed

theorem readRealmState_nil_name_witness:
  "fst (readRealmState memory_client ''token'' ''ghost'' nameless_only) = Inl nil_dereference \<and>
   map_sum id state_ID (fst (readRealmState memory_client ''token'' ''acme'' acme_only)) = Inr ''acme''"
  using readRealmState_nil_name[of memory_client "''token''" "''ghost''" nameless_only
      "acme_realm\<lparr>kc_Realm := None\<rparr>"
      "\<lparr>remote = [(''ghost'', acme_realm\<lparr>kc_Realm := None\<rparr>)], calls = [CallGetRealm ''token'' ''ghost'']\<rparr>"]
    readRealmState_nil_name[of memory_client "''token''" "''acme''" acme_only acme_realm
      "\<lparr>remote = [(''acme'', acme_realm)], calls = [CallGetRealm ''token'' ''acme'']\<rparr>"]
  by (auto simp add: GetRealm_def memory_client_def nameless_only_def acme_only_def acme_realm_def)

subsection \<open>Create, Update and Delete\<close>

text \<open>
  C3, as stated, fails: \<open>Create\<close> tests \<^verbatim>\<open>req.DryRun\<close> only after the login and the
  existence check. A dry run against the sample environment, started with an empty log,
  makes three remote calls: two logins and one fetch.
\<close>

theorem dryRun_remote_calls:
  "calls (snd (Create memory_ctx acme_args True no_realms)) =
     [CallLoginAdmin ''admin'' ''admin'' ''master'',
      CallLoginAdmin ''admin'' ''admin'' ''master'',
      CallGetRealm ''token'' ''acme'']"
  by (simp add: Create_def realmExists_def wrappers lookups memory_ctx_def memory_client_def
      acme_args_def no_realms_def)

text \<open>
  C3, amended: for every desired input, \<open>Create\<close> with \<open>dryRun\<close> set makes no write
  call (no \<^verbatim>\<open>CreateRealm\<close>, \<^verbatim>\<open>UpdateRealm\<close> or \<^verbatim>\<open>DeleteRealm\<close>); the calls it makes are
  the login and the existence check. When the login and the existence check succeed, it
  returns the reported state equal to the literal desired input, with the identifier
  \<^verbatim>\<open>desired.name\<close>.
\<close>

theorem Create_dryRun:
  "filter is_write (calls (snd (Create ctx inputs True s))) = filter is_write (calls s) \<and>
   (ctx_config ctx = Some config \<and> ctx_client ctx = Some client \<and>
    cfg_Realm config = Some adminRealm \<and>
    LoginAdmin client (cfg_Username config) (cfg_Password config) adminRealm s = (Inr token, s1) \<and>
    realmExists ctx client (args_Name inputs) s1 = (Inr exists, s2) \<longrightarrow>
    Create ctx inputs True s =
      (Inr \<lparr>resp_ID = args_Name inputs, resp_Output = DryRunOutput inputs\<rparr>, s2))"
  using dryRun_no_write[of ctx inputs s] by (simp add: Create_def lookups)

theorem Create_dryRun_witness:
  "filter is_write (calls (snd (Create memory_ctx acme_args True no_realms))) = [] \<and>
   fst (Create memory_ctx acme_args True no_realms) =
     Inr \<lparr>resp_ID = ''acme'', resp_Output = DryRunOutput acme_args\<rparr>"
  using Create_dryRun[of memory_ctx acme_args no_realms
      "\<lparr>cfg_URL = ''http://localhost:8080'', cfg_Username = ''admin'',
        cfg_Password = ''admin'', cfg_Realm = Some ''master'',
        cfg_BasePath = Some ''/'', cfg_Insecure = Some False\<rparr>"
      memory_client "''master''" "\<lparr>AccessToken = ''token''\<rparr>"
      "\<lparr>remote = [], calls = [CallLoginAdmin ''admin'' ''admin'' ''master'']\<rparr>"
      False
      "\<lparr>remote = [], calls = [CallLoginAdmin ''admin'' ''admin'' ''master'',
          CallLoginAdmin ''admin'' ''admin'' ''master'', CallGetRealm ''token'' ''acme'']\<rparr>"]
  by (simp add: realmExists_def wrappers lookups memory_ctx_def memory_client_def
      acme_args_def no_realms_def)

lemma Create_sends_minimalRealm:
  assumes "ctx_config ctx = Some config" and "ctx_client ctx = Some client"
    and "cfg_Realm config = Some adminRealm"
    and "LoginAdmin client (cfg_Username config) (cfg_Password config) adminRealm s = (Inr token, s1)"
    and "realmExists ctx client (args_Name inputs) s1 = (Inr False, s2)"
  shows "prefix (calls s2 @ [CallCreateRealm (AccessToken token) (minimalRealm inputs)])
      (calls (snd (Create ctx inputs False s)))"
proof -
  obtain r3 s3 where c: "CreateRealm client (AccessToken token) (minimalRealm inputs) s2 = (r3, s3)"
    by (cases "CreateRealm client (AccessToken token) (minimalRealm inputs) s2")
  obtain r4 s4 where u: "updateManagedFields client (AccessToken token) inputs s3 = (r4, s4)"
    by (cases "updateManagedFields client (AccessToken token) inputs s3")
  obtain r5 s5 where r: "readRealmState client (AccessToken token) (args_Name inputs) s4 = (r5, s5)"
    by (cases "readRealmState client (AccessToken token) (args_Name inputs) s4")
  have p3: "calls s3 = calls s2 @ [CallCreateRealm (AccessToken token) (minimalRealm inputs)]"
    by (rule CreateRealm_calls[OF c])
  have p4: "prefix (calls s3) (calls s4)"
    using updateManagedFields_extends[of s3 client "AccessToken token" inputs] u by simp
  have p5: "prefix (calls s4) (calls s5)"
    using readRealmState_extends[of s4 client "AccessToken token" "args_Name inputs"] r by simp
  have "snd (Create ctx inputs False s) = s3 \<or> snd (Create ctx inputs False s) = s4
      \<or> snd (Create ctx inputs False s) = s5"
    using assms c u r
    by (simp add: Create_def lookups split: sum.splits option.splits failure.splits)
  then have "prefix (calls s3) (calls (snd (Create ctx inputs False s)))"
    using p4 p5 by (auto intro: prefix_order.trans)
  then show ?thesis
    unfolding p3 .
qed

lemma Update_sends_updateRealm:
  assumes "ctx_config ctx = Some config" and "ctx_client ctx = Some client"
    and "cfg_Realm config = Some adminRealm"
    and "LoginAdmin client (cfg_Username config) (cfg_Password config) adminRealm s = (Inr token, s1)"
    and "GetRealm client (AccessToken token) (args_Name inputs) s1 = (Inr currentRealm, s2)"
  shows "prefix (calls s2 @ [CallUpdateRealm (AccessToken token) (updateRealm inputs currentRealm)])
      (calls (snd (Update ctx inputs False s)))"
proof -
  obtain r3 s3 where u: "updateManagedFields client (AccessToken token) inputs s1 = (r3, s3)"
    by (cases "updateManagedFields client (AccessToken token) inputs s1")
  obtain r4 s4 where r: "readRealmState client (AccessToken token) (args_Name inputs) s3 = (r4, s4)"
    by (cases "readRealmState client (AccessToken token) (args_Name inputs) s3")
  have p3: "calls s3 = calls s2 @ [CallUpdateRealm (AccessToken token) (updateRealm inputs currentRealm)]"
    using updateManagedFields_calls[OF assms(5)] u by simp
  have p4: "prefix (calls s3) (calls s4)"
    using readRealmState_extends[of s3 client "AccessToken token" "args_Name inputs"] r by simp
  have "snd (Update ctx inputs False s) = s3 \<or> snd (Update ctx inputs False s) = s4"
    using assms u r
    by (simp add: Update_def lookups split: sum.splits option.splits failure.splits)
  then have "prefix (calls s3) (calls (snd (Update ctx inputs False s)))"
    using p4 by auto
  then show ?thesis
    unfolding p3 .
qed

text \<open>
  C5: an absent \<^verbatim>\<open>enabled\<close> means different things at creation and at update. When
  \<open>Create\<close> (not a dry run) finds the realm absent, the call after the existence check
  is \<^verbatim>\<open>CreateRealm\<close> with the shell \<open>minimalRealm inputs\<close>, in which enabled is true;
  when \<open>Update\<close> (not a dry run) has fetched the realm, the call that follows is
  \<^verbatim>\<open>UpdateRealm\<close> with a payload whose enabled is that of the fetched realm.
\<close>

theorem enabled_absence:
  assumes "args_Enabled inputs = None"
    and "ctx_config ctx = Some config" and "ctx_client ctx = Some client"
    and "cfg_Realm config = Some adminRealm"
    and "LoginAdmin client (cfg_Username config) (cfg_Password config) adminRealm s = (Inr token, s1)"
    and "realmExists ctx client (args_Name inputs) s1 = (Inr False, s2)"
    and "LoginAdmin client (cfg_Username config) (cfg_Password config) adminRealm t = (Inr token', t1)"
    and "GetRealm client (AccessToken token') (args_Name inputs) t1 = (Inr currentRealm, t2)"
  shows "prefix (calls s2 @ [CallCreateRealm (AccessToken token) (minimalRealm inputs)])
      (calls (snd (Create ctx inputs False s))) \<and>
    kc_Enabled (minimalRealm inputs :: 'v RealmRepresentation) = Some True \<and>
    prefix (calls t2 @ [CallUpdateRealm (AccessToken token') (updateRealm inputs currentRealm)])
      (calls (snd (Update ctx inputs False t))) \<and>
    kc_Enabled (updateRealm inputs currentRealm) = kc_Enabled currentRealm"
proof -
  have "kc_Enabled (minimalRealm inputs :: 'v RealmRepresentation) = Some True"
    using assms(1) by (simp add: minimalRealm_def Let_def)
  moreover have "kc_Enabled (updateRealm inputs currentRealm) = kc_Enabled currentRealm"
    using assms(1) by (simp add: updateRealm_closed_form)
  ultimately show ?thesis
    using Create_sends_minimalRealm[OF assms(2-6)] Update_sends_updateRealm[OF assms(2-4) assms(7,8)]
    by simp
qed


theorem enabled_absence_witness:
  "prefix
     [CallLoginAdmin ''admin'' ''admin'' ''master'',
      CallLoginAdmin ''admin'' ''admin'' ''master'',
      CallGetRealm ''token'' ''acme'',
      CallCreateRealm ''token'' (minimalRealm acme_args)]
     (calls (snd (Create memory_ctx acme_args False no_realms))) \<and>
   kc_Enabled (minimalRealm acme_args :: nat RealmRepresentation) = Some True \<and>
   prefix
     [CallLoginAdmin ''admin'' ''admin'' ''master'',
      CallGetRealm ''token'' ''acme'',
      CallUpdateRealm ''token'' (updateRealm acme_args acme_realm)]
     (calls (snd (Update memory_ctx acme_args False acme_only))) \<and>
   kc_Enabled (updateRealm acme_args acme_realm) = Some False"
  using enabled_absence[of acme_args memory_ctx
      "\<lparr>cfg_URL = ''http://localhost:8080'', cfg_Username = ''admin'',
        cfg_Password = ''admin'', cfg_Realm = Some ''master'',
        cfg_BasePath = Some ''/'', cfg_Insecure = Some False\<rparr>"
      memory_client "''master''" no_realms "\<lparr>AccessToken = ''token''\<rparr>"
      "\<lparr>remote = [], calls = [CallLoginAdmin ''admin'' ''admin'' ''master'']\<rparr>"
      "\<lparr>remote = [], calls = [CallLoginAdmin ''admin'' ''admin'' ''master'',
          CallLoginAdmin ''admin'' ''admin'' ''master'', CallGetRealm ''token'' ''acme'']\<rparr>"
      acme_only "\<lparr>AccessToken = ''token''\<rparr>"
      "\<lparr>remote = [(''acme'', acme_realm)], calls = [CallLoginAdmin ''admin'' ''admin'' ''master'']\<rparr>"
      acme_realm
      "\<lparr>remote = [(''acme'', acme_realm)], calls = [CallLoginAdmin ''admin'' ''admin'' ''master'',
          CallGetRealm ''token'' ''acme'']\<rparr>"]
  by (simp add: realmExists_def wrappers lookups memory_ctx_def memory_client_def
      acme_args_def no_realms_def acme_only_def acme_realm_def)

text \<open>
  C6: \<open>Delete\<close> is idempotent on a realm that is already gone. When the remote delete
  call fails, \<open>Delete\<close> succeeds if the existence check that follows reports, without
  error, that the realm is absent; if the check reports that the realm exists, or fails
  itself, \<open>Delete\<close> fails with the failure of the delete call (wrapped in
  \<^verbatim>\<open>failed to delete realm\<close>).
\<close>

theorem Delete_idempotent:
  assumes "ctx_config ctx = Some config" and "ctx_client ctx = Some client"
    and "cfg_Realm config = Some adminRealm"
    and "LoginAdmin client (cfg_Username config) (cfg_Password config) adminRealm s = (Inr token, s1)"
    and "DeleteRealm client (AccessToken token) (state_Name state) s1 = (Some err, s2)"
    and "realmExists ctx client (state_Name state) s2 = (check, s3)"
  shows "Delete ctx state s =
    (if check = Inr False then (Inr (), s3)
     else (Inl (Error (''failed to delete realm: '' @ err)), s3))"
proof -
  have "check \<noteq> Inl (Panic p)" for p
    using realmExists_no_panic[OF assms(1,3), of client "state_Name state" s2 p] assms(6) by simp
  then show ?thesis
    using assms by (auto simp: Delete_def lookups split: sum.splits failure.splits)
qed

theorem Delete_idempotent_witness:
  "fst (Delete memory_ctx (DryRunOutput acme_args) no_realms) = Inr () \<and>
   fst (Delete locked_ctx (DryRunOutput acme_args) acme_only) =
     Inl (Error ''failed to delete realm: 403'')"
  using Delete_idempotent[of memory_ctx _ memory_client "''master''" no_realms
        "\<lparr>AccessToken = ''token''\<rparr>" _ "DryRunOutput acme_args" "''404''" _ "Inr False"]
    Delete_idempotent[of locked_ctx _ locked_client "''master''" acme_only
        "\<lparr>AccessToken = ''token''\<rparr>" _ "DryRunOutput acme_args" "''403''" _ "Inr True"]
  by (simp add: realmExists_def wrappers lookups memory_ctx_def memory_client_def locked_ctx_def
      locked_client_def acme_args_def no_realms_def acme_only_def DryRunOutput_def)

end
